theory Spec2Isabelle
  imports Main
begin

section \<open>Values, documents and errors\<close>

text \<open>
  The data-access layer of \<^verbatim>\<open>backend/src/dal.py\<close> reads and writes schema-less
  documents. A document is a Python dict whose values are strings, booleans, ObjectIds,
  datetimes, None, lists and nested dicts; \<open>bson\<close> is that universe of values and a
  document is an association list in key order. An ObjectId is its 96-bit number, a
  stored date is a count of milliseconds (the precision of a BSON date), a Python
  \<open>datetime\<close> is a count of microseconds.
\<close>

datatype bson =
    BNull
  | BBool bool
  | BStr string
  | BOid nat
  | BDate int
  | BArr "bson list"
  | BDoc "(string \<times> bson) list"

type_synonym doc = "(string \<times> bson) list"

type_synonym datetime = int

text \<open>Every exception the modelled code can raise is a value; \<open>Inl\<close> carries it.\<close>

datatype error =
    NameError string
  | KeyError string
  | AttributeError string
  | TypeError
  | ValueError
  | ValidationError
  | InvalidId
  | WriteError
  | DuplicateKeyError
  | OperationFailure

definition ebind :: "error + 'a \<Rightarrow> ('a \<Rightarrow> error + 'b) \<Rightarrow> error + 'b" where
  "ebind m f = (case m of Inl e \<Rightarrow> Inl e | Inr x \<Rightarrow> f x)"

text \<open>
  What the libraries under the code do and the source does not say is a parameter of the
  model, so that every theorem holds whatever they do:
  \<^item> \<open>oid_of_str\<close>: \<^verbatim>\<open>ObjectId(s)\<close> on a string (\<open>None\<close> when it raises InvalidId);
  \<^item> \<open>str_other\<close>: \<^verbatim>\<open>str(v)\<close> of a value that is not already a string;
  \<^item> \<open>coerce_str\<close>: what a pydantic \<^verbatim>\<open>str\<close> field makes of a value that is not a
    string (\<open>None\<close> when validation fails);
  \<^item> \<open>iso_parse\<close>: \<^verbatim>\<open>datetime.fromisoformat\<close> on a non-empty string (\<open>None\<close> when it
    raises ValueError);
  \<^item> \<open>empty_set_ok\<close>: whether the server accepts an update \<^verbatim>\<open>{"$set": {}}\<close> as a
    no-op (it rejects it otherwise).
\<close>

record platform =
  oid_of_str :: "string \<Rightarrow> nat option"
  str_other :: "bson \<Rightarrow> string"
  coerce_str :: "bson \<Rightarrow> string option"
  iso_parse :: "string \<Rightarrow> datetime option"
  empty_set_ok :: bool

subsection \<open>Python's view of a value\<close>

text \<open>\<^verbatim>\<open>doc[k]\<close> raises KeyError on a missing key; \<^verbatim>\<open>doc.get(k, default)\<close> does not.\<close>

definition getitem :: "doc \<Rightarrow> string \<Rightarrow> error + bson" where
  "getitem d k = (case map_of d k of None \<Rightarrow> Inl (KeyError k) | Some v \<Rightarrow> Inr v)"

definition doc_get :: "doc \<Rightarrow> string \<Rightarrow> bson \<Rightarrow> bson" where
  "doc_get d k dflt = (case map_of d k of None \<Rightarrow> dflt | Some v \<Rightarrow> v)"

text \<open>Truthiness, as \<^verbatim>\<open>bool(v)\<close>, \<^verbatim>\<open>if v:\<close> and \<^verbatim>\<open>filter(None, ...)\<close> test it.\<close>

fun truthy :: "bson \<Rightarrow> bool" where
  "truthy BNull = False"
| "truthy (BBool b) = b"
| "truthy (BStr s) = (s \<noteq> [])"
| "truthy (BOid n) = True"
| "truthy (BDate t) = True"
| "truthy (BArr xs) = (xs \<noteq> [])"
| "truthy (BDoc kvs) = (kvs \<noteq> [])"

text \<open>
  Iterating a value: a list yields its elements, a string its characters, a dict its
  keys; None, a boolean, an ObjectId and a datetime are not iterable.
\<close>

fun py_iter :: "bson \<Rightarrow> error + bson list" where
  "py_iter (BArr xs) = Inr xs"
| "py_iter (BStr s) = Inr (map (\<lambda>c. BStr [c]) s)"
| "py_iter (BDoc kvs) = Inr (map (\<lambda>kv. BStr (fst kv)) kvs)"
| "py_iter v = Inl TypeError"

definition py_str :: "platform \<Rightarrow> bson \<Rightarrow> string" where
  "py_str P v = (case v of BStr s \<Rightarrow> s | _ \<Rightarrow> str_other P v)"

text \<open>
  \<^verbatim>\<open>datetime.fromisoformat(v)\<close>: TypeError unless \<open>v\<close> is a string, ValueError on a
  string it cannot parse; the empty string (the default the code passes for a missing
  field) is never parsed.
\<close>

definition fromisoformat :: "platform \<Rightarrow> bson \<Rightarrow> error + datetime" where
  "fromisoformat P v =
     (case v of
        BStr s \<Rightarrow>
          (if s = [] then Inl ValueError
           else (case iso_parse P s of None \<Rightarrow> Inl ValueError | Some t \<Rightarrow> Inr t))
      | _ \<Rightarrow> Inl TypeError)"

text \<open>Validation of a pydantic field declared \<^verbatim>\<open>str\<close>, and of one declared \<^verbatim>\<open>list[str]\<close>.\<close>

definition validate_str :: "platform \<Rightarrow> bson \<Rightarrow> error + string" where
  "validate_str P v =
     (case v of
        BStr s \<Rightarrow> Inr s
      | _ \<Rightarrow> (case coerce_str P v of None \<Rightarrow> Inl ValidationError | Some s \<Rightarrow> Inr s))"

fun validate_str_list :: "platform \<Rightarrow> bson list \<Rightarrow> error + string list" where
  "validate_str_list P [] = Inr []"
| "validate_str_list P (x # xs) =
     ebind (validate_str P x) (\<lambda>s.
     ebind (validate_str_list P xs) (\<lambda>ss. Inr (s # ss)))"

section \<open>The pydantic models\<close>

record KingdomSummary =
  k_id :: string
  k_name :: string
  clan_count :: nat

record Clan =
  c_id :: string
  c_name :: string
  c_description :: string

record Member =
  m_id :: string
  m_nickname :: string
  m_email :: string
  m_password :: string
  m_rank :: string
  m_member_of :: "string list"
  m_status :: string
  m_registration_date :: datetime
  m_last_login :: datetime
  m_description :: string
  m_phone :: string
  m_image_access :: bool
  m_info_access :: bool
  m_manage_access :: bool
  m_media_access :: bool

text \<open>
  \<^verbatim>\<open>KingdomSummary.from_doc\<close> evaluates its keyword arguments in order:
  \<^verbatim>\<open>str(doc["_id"])\<close>, \<^verbatim>\<open>doc["name"]\<close>, then \<^verbatim>\<open>doc[clanCount]\<close>, where \<^verbatim>\<open>clanCount\<close>
  is a name bound nowhere in the module: the lookup of the name raises NameError before
  any summary is built.
\<close>

definition KingdomSummary_from_doc :: "platform \<Rightarrow> doc \<Rightarrow> error + KingdomSummary" where
  "KingdomSummary_from_doc P d =
     ebind (getitem d ''_id'') (\<lambda>i.
     ebind (getitem d ''name'') (\<lambda>n.
     Inl (NameError ''clanCount'')))"

definition Clan_from_doc :: "platform \<Rightarrow> doc \<Rightarrow> error + Clan" where
  "Clan_from_doc P d =
     ebind (getitem d ''_id'') (\<lambda>i.
     ebind (getitem d ''clanName'') (\<lambda>n.
     ebind (validate_str P n) (\<lambda>v_name.
     ebind (validate_str P (doc_get d ''description'' (BStr []))) (\<lambda>v_description.
     Inr \<lparr>c_id = py_str P i, c_name = v_name, c_description = v_description\<rparr>))))"

text \<open>
  \<^verbatim>\<open>Member.from_doc\<close>: the keyword arguments are evaluated in order (a missing
  \<^verbatim>\<open>_id\<close> or \<^verbatim>\<open>nickname\<close> raises KeyError, \<^verbatim>\<open>filter(None, ...)\<close> keeps the truthy
  elements of whatever \<^verbatim>\<open>memberOf\<close> iterates to, \<^verbatim>\<open>fromisoformat\<close> parses the two
  dates), then the model validates its string fields.
\<close>

definition Member_from_doc :: "platform \<Rightarrow> doc \<Rightarrow> error + Member" where
  "Member_from_doc P d =
     ebind (getitem d ''_id'') (\<lambda>i.
     ebind (getitem d ''nickname'') (\<lambda>nick.
     ebind (py_iter (doc_get d ''memberOf'' (BArr []))) (\<lambda>mo.
     ebind (fromisoformat P (doc_get d ''registrationDate'' (BStr []))) (\<lambda>reg.
     ebind (fromisoformat P (doc_get d ''lastLogin'' (BStr []))) (\<lambda>login.
     ebind (validate_str P nick) (\<lambda>v_nickname.
     ebind (validate_str P (doc_get d ''email'' (BStr []))) (\<lambda>v_email.
     ebind (validate_str P (doc_get d ''password'' (BStr []))) (\<lambda>v_password.
     ebind (validate_str P (doc_get d ''rank'' (BStr []))) (\<lambda>v_rank.
     ebind (validate_str_list P (filter truthy mo)) (\<lambda>v_member_of.
     ebind (validate_str P (doc_get d ''status'' (BStr []))) (\<lambda>v_status.
     ebind (validate_str P (doc_get d ''description'' (BStr []))) (\<lambda>v_description.
     ebind (validate_str P (doc_get d ''phone'' (BStr []))) (\<lambda>v_phone.
     Inr \<lparr>m_id = py_str P i,
          m_nickname = v_nickname,
          m_email = v_email,
          m_password = v_password,
          m_rank = v_rank,
          m_member_of = v_member_of,
          m_status = v_status,
          m_registration_date = reg,
          m_last_login = login,
          m_description = v_description,
          m_phone = v_phone,
          m_image_access = truthy (doc_get d ''imageAccess'' (BBool False)),
          m_info_access = truthy (doc_get d ''infoAccess'' (BBool False)),
          m_manage_access = truthy (doc_get d ''manageAccess'' (BBool False)),
          m_media_access = truthy (doc_get d ''mediaAccess'' (BBool False))\<rparr>
     )))))))))))))"

section \<open>The document store\<close>

text \<open>
  The two collections, in the store's iteration order, and the driver's ObjectId
  generator: \<^verbatim>\<open>ObjectId()\<close> hands out \<open>next_oid\<close> and moves on.
\<close>

record store =
  kingdoms :: "doc list"
  clans :: "doc list"
  next_oid :: nat

definition new_ObjectId :: "store \<Rightarrow> nat \<times> store" where
  "new_ObjectId st = (next_oid st, st\<lparr>next_oid := Suc (next_oid st)\<rparr>)"

text \<open>
  The identifiers the operations take are annotated \<^verbatim>\<open>str | ObjectId\<close>.
  \<^verbatim>\<open>ObjectId(x)\<close> copies an ObjectId and parses a string, raising InvalidId on a
  malformed one; \<^verbatim>\<open>str(x)\<close> is the string itself or the ObjectId's text.
\<close>

datatype ident = IdStr string | IdOid nat

definition ObjectId :: "platform \<Rightarrow> ident \<Rightarrow> error + nat" where
  "ObjectId P x =
     (case x of
        IdOid n \<Rightarrow> Inr n
      | IdStr s \<Rightarrow> (case oid_of_str P s of None \<Rightarrow> Inl InvalidId | Some n \<Rightarrow> Inr n))"

definition str_ident :: "platform \<Rightarrow> ident \<Rightarrow> string" where
  "str_ident P x = (case x of IdStr s \<Rightarrow> s | IdOid n \<Rightarrow> py_str P (BOid n))"

text \<open>
  A Python datetime written to the store keeps milliseconds only; every other value the
  code writes is stored as it is.
\<close>

fun stored :: "bson \<Rightarrow> bson" where
  "stored (BDate t) = BDate (t - t mod 1000)"
| "stored v = v"

definition stored_doc :: "doc \<Rightarrow> doc" where
  "stored_doc d = map (\<lambda>kv. (fst kv, stored (snd kv))) d"

subsection \<open>Queries\<close>

text \<open>
  A query \<^verbatim>\<open>{"_id": oid}\<close> on a collection matches the document whose \<^verbatim>\<open>_id\<close> is
  that ObjectId (the \<^verbatim>\<open>_id\<close> of a stored document is never an array). A query
  \<^verbatim>\<open>{field: oid}\<close> on any other field matches a value equal to the ObjectId and an
  array that contains it.
\<close>

definition has_id :: "nat \<Rightarrow> doc \<Rightarrow> bool" where
  "has_id n d = (map_of d ''_id'' = Some (BOid n))"

definition refers_to :: "string \<Rightarrow> nat \<Rightarrow> doc \<Rightarrow> bool" where
  "refers_to k n d =
     (case map_of d k of
        None \<Rightarrow> False
      | Some (BArr vs) \<Rightarrow> BOid n \<in> set vs
      | Some v \<Rightarrow> v = BOid n)"

definition find_one :: "doc list \<Rightarrow> nat \<Rightarrow> doc option" where
  "find_one coll n = find (has_id n) coll"

text \<open>The projection \<^verbatim>\<open>{"name": 1}\<close> keeps \<^verbatim>\<open>_id\<close> and \<^verbatim>\<open>name\<close>.\<close>

definition project_name :: "doc \<Rightarrow> doc" where
  "project_name d = filter (\<lambda>kv. fst kv = ''_id'' \<or> fst kv = ''name'') d"

subsection \<open>Writes\<close>

text \<open>Setting one key of a dict or document: in place when present, appended otherwise.\<close>

fun doc_set :: "string \<Rightarrow> bson \<Rightarrow> doc \<Rightarrow> doc" where
  "doc_set k v [] = [(k, v)]"
| "doc_set k v (kv # kvs) = (if fst kv = k then (k, v) # kvs else kv # doc_set k v kvs)"

fun set_fields :: "(string \<times> bson) list \<Rightarrow> doc \<Rightarrow> doc" where
  "set_fields [] d = d"
| "set_fields (kv # kvs) d = set_fields kvs (doc_set (fst kv) (snd kv) d)"

definition insert_one :: "doc list \<Rightarrow> nat \<Rightarrow> doc \<Rightarrow> error + doc list" where
  "insert_one coll n d =
     (case find_one coll n of
        Some _ \<Rightarrow> Inl DuplicateKeyError
      | None \<Rightarrow> Inr (coll @ [d]))"

fun delete_first :: "nat \<Rightarrow> doc list \<Rightarrow> doc list" where
  "delete_first n [] = []"
| "delete_first n (d # ds) = (if has_id n d then ds else d # delete_first n ds)"

fun replace_first :: "nat \<Rightarrow> doc \<Rightarrow> doc list \<Rightarrow> doc list" where
  "replace_first n d' [] = []"
| "replace_first n d' (d # ds) = (if has_id n d then d' # ds else d # replace_first n d' ds)"

text \<open>\<^verbatim>\<open>delete_one({"_id": oid})\<close>: the collection without the match, and \<open>deleted_count\<close>.\<close>

definition delete_one :: "doc list \<Rightarrow> nat \<Rightarrow> doc list \<times> nat" where
  "delete_one coll n =
     (case find_one coll n of
        None \<Rightarrow> (coll, 0)
      | Some _ \<Rightarrow> (delete_first n coll, 1))"

text \<open>
  \<^verbatim>\<open>update_one({"_id": oid}, update, upsert=False)\<close>: the update operator \<open>upd\<close> is
  applied to the matched document, if any; the result is the collection and
  \<open>modified_count\<close>, which counts a document only when the update changed it. Nothing
  is inserted when nothing matches.
\<close>

definition update_one ::
  "doc list \<Rightarrow> nat \<Rightarrow> (doc \<Rightarrow> error + doc) \<Rightarrow> error + doc list \<times> nat" where
  "update_one coll n upd =
     (case find_one coll n of
        None \<Rightarrow> Inr (coll, 0)
      | Some d \<Rightarrow>
          ebind (upd d) (\<lambda>d'.
          Inr (replace_first n d' coll, if d' = d then 0 else 1)))"

text \<open>\<^verbatim>\<open>{"$push": {k: x}}\<close>: appends to the array, creating it when the field is absent.\<close>

definition op_push :: "string \<Rightarrow> bson \<Rightarrow> doc \<Rightarrow> error + doc" where
  "op_push k x d =
     (case map_of d k of
        None \<Rightarrow> Inr (doc_set k (BArr [x]) d)
      | Some (BArr xs) \<Rightarrow> Inr (doc_set k (BArr (xs @ [x])) d)
      | Some _ \<Rightarrow> Inl WriteError)"

text \<open>
  An array element matches the condition \<^verbatim>\<open>{"_id": oid}\<close> when it is a document whose
  \<^verbatim>\<open>_id\<close> matches. \<^verbatim>\<open>{"$pull": {k: {"_id": oid}}}\<close> removes every such element; a
  missing field is left alone.
\<close>

definition member_has_id :: "nat \<Rightarrow> bson \<Rightarrow> bool" where
  "member_has_id n m = (case m of BDoc md \<Rightarrow> refers_to ''_id'' n md | _ \<Rightarrow> False)"

definition op_pull :: "string \<Rightarrow> nat \<Rightarrow> doc \<Rightarrow> error + doc" where
  "op_pull k n d =
     (case map_of d k of
        None \<Rightarrow> Inr d
      | Some (BArr xs) \<Rightarrow> Inr (doc_set k (BArr (filter (\<lambda>m. \<not> member_has_id n m) xs)) d)
      | Some _ \<Rightarrow> Inl WriteError)"

text \<open>
  \<^verbatim>\<open>{"$set": {"armyMembers.$[member].f": v, ...}}\<close> with the array filter
  \<^verbatim>\<open>{"member._id": oid}\<close>: every element the filter selects gets every field set.
  The path must lead to an array. The filter's path also looks into an element that is
  itself an array; such an element has no fields to set and the write fails.
\<close>

definition member_selected :: "nat \<Rightarrow> bson \<Rightarrow> bool" where
  "member_selected n m =
     (case m of
        BDoc md \<Rightarrow> refers_to ''_id'' n md
      | BArr ys \<Rightarrow> list_ex (member_has_id n) ys
      | _ \<Rightarrow> False)"

fun set_member_fields :: "nat \<Rightarrow> (string \<times> bson) list \<Rightarrow> bson list \<Rightarrow> error + bson list" where
  "set_member_fields n upds [] = Inr []"
| "set_member_fields n upds (m # ms) =
     (if member_selected n m then
        (case m of
           BDoc md \<Rightarrow>
             ebind (set_member_fields n upds ms) (\<lambda>r. Inr (BDoc (set_fields upds md) # r))
         | _ \<Rightarrow> Inl WriteError)
      else ebind (set_member_fields n upds ms) (\<lambda>r. Inr (m # r)))"

definition op_set_members :: "nat \<Rightarrow> (string \<times> bson) list \<Rightarrow> doc \<Rightarrow> error + doc" where
  "op_set_members n upds d =
     (case map_of d ''armyMembers'' of
        Some (BArr xs) \<Rightarrow>
          ebind (set_member_fields n upds xs) (\<lambda>xs'. Inr (doc_set ''armyMembers'' (BArr xs') d))
      | _ \<Rightarrow> Inl WriteError)"

text \<open>
  \<^verbatim>\<open>find_one_and_update({"_id": oid}, {"$set": fields}, return_document=AFTER)\<close>: the
  document after the update, or nothing when none matched. An empty \<^verbatim>\<open>$set\<close> is
  refused by a server that does not take it for a no-op.
\<close>

definition find_one_and_update ::
  "platform \<Rightarrow> doc list \<Rightarrow> nat \<Rightarrow> (string \<times> bson) list \<Rightarrow> error + doc list \<times> doc option" where
  "find_one_and_update P coll n upds =
     (if upds = [] \<and> \<not> empty_set_ok P then Inl OperationFailure
      else
        (case find_one coll n of
           None \<Rightarrow> Inr (coll, None)
         | Some d \<Rightarrow> Inr (replace_first n (set_fields upds d) coll, Some (set_fields upds d))))"

section \<open>The data-access layer\<close>

text \<open>
  Each method of \<^verbatim>\<open>KingdomDAL\<close> is a function of the platform, the store and the
  method's arguments. A method that writes returns its outcome and the store it leaves,
  also when it raises after the write. The model is of the method bodies, as they run
  once the class is defined; the annotations of parameters and results are not part of
  it. Writes are acknowledged (the default write concern).
\<close>

subsection \<open>Hydrating clans\<close>

text \<open>
  \<^verbatim>\<open>ArmyMember\<close> is bound nowhere in \<^verbatim>\<open>dal.py\<close> (the class is called
  \<^verbatim>\<open>Member\<close>) and nothing is imported under that name: evaluating the name raises
  NameError, whatever the argument.
\<close>

definition ArmyMember_from_doc :: "'a \<Rightarrow> error + Member" where
  "ArmyMember_from_doc member = Inl (NameError ''ArmyMember'')"

definition Member_dict :: "Member \<Rightarrow> doc" where
  "Member_dict m =
     [(''id'', BStr (m_id m)),
      (''nickname'', BStr (m_nickname m)),
      (''email'', BStr (m_email m)),
      (''password'', BStr (m_password m)),
      (''rank'', BStr (m_rank m)),
      (''member_of'', BArr (map BStr (m_member_of m))),
      (''status'', BStr (m_status m)),
      (''registration_date'', BDate (m_registration_date m)),
      (''last_login'', BDate (m_last_login m)),
      (''description'', BStr (m_description m)),
      (''phone'', BStr (m_phone m)),
      (''image_access'', BBool (m_image_access m)),
      (''info_access'', BBool (m_info_access m)),
      (''manage_access'', BBool (m_manage_access m)),
      (''media_access'', BBool (m_media_access m))]"

definition Clan_dict :: "Clan \<Rightarrow> doc" where
  "Clan_dict c =
     [(''id'', BStr (c_id c)),
      (''name'', BStr (c_name c)),
      (''description'', BStr (c_description c))]"

text \<open>
  The comprehension
  \<^verbatim>\<open>[ArmyMember.from_doc(member).dict() for member in doc.get("armyMembers", [])]\<close>:
  the name is evaluated once per element, so an empty array yields the empty list.
\<close>

fun hydrate_loop :: "bson list \<Rightarrow> error + bson list" where
  "hydrate_loop [] = Inr []"
| "hydrate_loop (member # members) =
     ebind (ArmyMember_from_doc member) (\<lambda>m.
     ebind (hydrate_loop members) (\<lambda>r. Inr (BDoc (Member_dict m) # r)))"

definition hydrate_members :: "doc \<Rightarrow> error + bson list" where
  "hydrate_members d = ebind (py_iter (doc_get d ''armyMembers'' (BArr []))) hydrate_loop"

text \<open>
  \<^verbatim>\<open>clan.armyMembers = ...\<close> assigns an attribute that the model \<^verbatim>\<open>Clan\<close> does not
  declare (its fields are \<^verbatim>\<open>id\<close>, \<^verbatim>\<open>name\<close> and \<^verbatim>\<open>description\<close>). A pydantic model
  refuses such an assignment with ValueError.
\<close>

definition Clan_set_armyMembers :: "Clan \<Rightarrow> bson list \<Rightarrow> error + Clan" where
  "Clan_set_armyMembers clan members = Inl ValueError"

text \<open>
  The three lines shared by \<^verbatim>\<open>get_clan\<close>, \<^verbatim>\<open>list_clans\<close> and \<^verbatim>\<open>update_clan\<close>:
  \<^verbatim>\<open>clan = Clan.from_doc(doc); clan.armyMembers = [...]; clan.dict()\<close>.
\<close>

definition hydrated_clan :: "platform \<Rightarrow> doc \<Rightarrow> error + doc" where
  "hydrated_clan P d =
     ebind (Clan_from_doc P d) (\<lambda>clan.
     ebind (hydrate_members d) (\<lambda>members.
     ebind (Clan_set_armyMembers clan members) (\<lambda>clan'.
     Inr (Clan_dict clan'))))"

subsection \<open>Clans\<close>

fun list_clans_loop :: "platform \<Rightarrow> doc list \<Rightarrow> doc list \<Rightarrow> error + doc list" where
  "list_clans_loop P [] acc = Inr acc"
| "list_clans_loop P (d # ds) acc =
     ebind (hydrated_clan P d) (\<lambda>c. list_clans_loop P ds (acc @ [c]))"

definition list_clans :: "platform \<Rightarrow> store \<Rightarrow> ident \<Rightarrow> error + doc list" where
  "list_clans P st kingdom_id =
     ebind (ObjectId P kingdom_id) (\<lambda>k.
     list_clans_loop P (filter (refers_to ''kingdomId'' k) (clans st)) [])"

definition get_clan :: "platform \<Rightarrow> store \<Rightarrow> ident \<Rightarrow> error + doc option" where
  "get_clan P st ident =
     ebind (ObjectId P ident) (\<lambda>oid.
     case find_one (clans st) oid of
       None \<Rightarrow> Inr None
     | Some d \<Rightarrow>
         if truthy (BDoc d) then ebind (hydrated_clan P d) (\<lambda>c. Inr (Some c))
         else Inr None)"

text \<open>
  \<^verbatim>\<open>create_clan\<close>: the document is built (\<^verbatim>\<open>ObjectId()\<close>, then
  \<^verbatim>\<open>ObjectId(kingdom_id)\<close>), inserted, and read back through \<^verbatim>\<open>get_clan\<close> under the
  text of its identifier; \<^verbatim>\<open>Clan.from_doc\<close> is applied to what \<^verbatim>\<open>get_clan\<close> returns
  (subscripting None raises TypeError). The insert is acknowledged under the default
  write concern.
\<close>

definition create_clan ::
  "platform \<Rightarrow> store \<Rightarrow> ident \<Rightarrow> string \<Rightarrow> string \<Rightarrow> (error + Clan option) \<times> store" where
  "create_clan P st kingdom_id clan_name description =
     (let (n, st1) = new_ObjectId st in
      case ObjectId P kingdom_id of
        Inl e \<Rightarrow> (Inl e, st1)
      | Inr k \<Rightarrow>
          (case insert_one (clans st1) n
                  [(''_id'', BOid n),
                   (''kingdomId'', BOid k),
                   (''clanName'', BStr clan_name),
                   (''description'', BStr description),
                   (''armyMembers'', BArr [])] of
             Inl e \<Rightarrow> (Inl e, st1)
           | Inr coll \<Rightarrow>
               (let st2 = st1\<lparr>clans := coll\<rparr> in
                (ebind (get_clan P st2 (IdStr (py_str P (BOid n)))) (\<lambda>r.
                 case r of
                   None \<Rightarrow> Inl TypeError
                 | Some d \<Rightarrow> ebind (Clan_from_doc P d) (\<lambda>c. Inr (Some c))),
                 st2))))"

definition delete_clan :: "platform \<Rightarrow> store \<Rightarrow> ident \<Rightarrow> (error + bool) \<times> store" where
  "delete_clan P st ident =
     (case ObjectId P ident of
        Inl e \<Rightarrow> (Inl e, st)
      | Inr oid \<Rightarrow>
          (let (coll, deleted_count) = delete_one (clans st) oid in
           (Inr (deleted_count = 1), st\<lparr>clans := coll\<rparr>)))"

text \<open>
  \<^verbatim>\<open>update_clan\<close>: \<open>name\<close> and \<open>description\<close> default to None. The name is applied
  when truthy, the description when it is not None.
\<close>

definition update_fields :: "string option \<Rightarrow> string option \<Rightarrow> (string \<times> bson) list" where
  "update_fields name description =
     (case name of
        None \<Rightarrow> []
      | Some n \<Rightarrow> if truthy (BStr n) then [(''clanName'', BStr n)] else [])
     @ (case description of
          None \<Rightarrow> []
        | Some s \<Rightarrow> [(''description'', BStr s)])"

definition update_clan ::
  "platform \<Rightarrow> store \<Rightarrow> ident \<Rightarrow> string option \<Rightarrow> string option \<Rightarrow> (error + doc option) \<times> store" where
  "update_clan P st clan_id name description =
     (case ObjectId P clan_id of
        Inl e \<Rightarrow> (Inl e, st)
      | Inr cid \<Rightarrow>
          (case find_one_and_update P (clans st) cid (update_fields name description) of
             Inl e \<Rightarrow> (Inl e, st)
           | Inr (coll, result) \<Rightarrow>
               ((case result of
                   None \<Rightarrow> Inr None
                 | Some d \<Rightarrow>
                     if truthy (BDoc d) then ebind (hydrated_clan P d) (\<lambda>c. Inr (Some c))
                     else Inr None),
                st\<lparr>clans := coll\<rparr>)))"

subsection \<open>Kingdoms\<close>

text \<open>
  \<^verbatim>\<open>create_kingdom\<close> inserts \<^verbatim>\<open>{"name": name}\<close>; the driver gives the document its
  \<^verbatim>\<open>_id\<close>.
\<close>

definition create_kingdom :: "platform \<Rightarrow> store \<Rightarrow> string \<Rightarrow> (error + string) \<times> store" where
  "create_kingdom P st name =
     (let (n, st1) = new_ObjectId st in
      case insert_one (kingdoms st1) n [(''_id'', BOid n), (''name'', BStr name)] of
        Inl e \<Rightarrow> (Inl e, st1)
      | Inr coll \<Rightarrow> (Inr (py_str P (BOid n)), st1\<lparr>kingdoms := coll\<rparr>))"

fun list_kingdoms_loop ::
  "platform \<Rightarrow> store \<Rightarrow> doc list \<Rightarrow> KingdomSummary list \<Rightarrow> error + KingdomSummary list" where
  "list_kingdoms_loop P st [] acc = Inr acc"
| "list_kingdoms_loop P st (d # ds) acc =
     ebind (KingdomSummary_from_doc P d) (\<lambda>kingdom.
     ebind (list_clans P st (IdStr (k_id kingdom))) (\<lambda>cl.
     list_kingdoms_loop P st ds (acc @ [kingdom\<lparr>clan_count := length cl\<rparr>])))"

definition list_kingdoms :: "platform \<Rightarrow> store \<Rightarrow> error + KingdomSummary list" where
  "list_kingdoms P st = list_kingdoms_loop P st (map project_name (kingdoms st)) []"

text \<open>
  \<^verbatim>\<open>get_kingdom\<close>: \<^verbatim>\<open>doc["_id"]\<close> is the ObjectId the query matched, and
  \<^verbatim>\<open>list_clans\<close> is called with it. The first loop rewrites \<^verbatim>\<open>armyMembers\<close> in each
  clan it got, the comprehension maps \<^verbatim>\<open>Clan.from_doc(clan).dict()\<close> over them.
\<close>

fun rehydrate_loop :: "doc list \<Rightarrow> error + doc list" where
  "rehydrate_loop [] = Inr []"
| "rehydrate_loop (clan # cs) =
     ebind (hydrate_members clan) (\<lambda>members.
     ebind (rehydrate_loop cs) (\<lambda>r. Inr (doc_set ''armyMembers'' (BArr members) clan # r)))"

fun clan_dicts :: "platform \<Rightarrow> doc list \<Rightarrow> error + bson list" where
  "clan_dicts P [] = Inr []"
| "clan_dicts P (clan # cs) =
     ebind (Clan_from_doc P clan) (\<lambda>c.
     ebind (clan_dicts P cs) (\<lambda>r. Inr (BDoc (Clan_dict c) # r)))"

definition get_kingdom :: "platform \<Rightarrow> store \<Rightarrow> ident \<Rightarrow> error + doc option" where
  "get_kingdom P st ident =
     ebind (ObjectId P ident) (\<lambda>oid.
     case find_one (kingdoms st) oid of
       None \<Rightarrow> Inr None
     | Some d \<Rightarrow>
         if truthy (BDoc d) then
           ebind (list_clans P st (IdOid oid)) (\<lambda>cl.
           ebind (rehydrate_loop cl) (\<lambda>cl'.
           ebind (clan_dicts P cl') (\<lambda>cs.
           Inr (Some (doc_set ''clans'' (BArr cs) d)))))
         else Inr (Some d))"

definition delete_kingdom :: "platform \<Rightarrow> store \<Rightarrow> ident \<Rightarrow> (error + bool) \<times> store" where
  "delete_kingdom P st ident =
     (case ObjectId P ident of
        Inl e \<Rightarrow> (Inl e, st)
      | Inr oid \<Rightarrow>
          (let (coll, deleted_count) = delete_one (kingdoms st) oid in
           (Inr (deleted_count = 1), st\<lparr>kingdoms := coll\<rparr>)))"

subsection \<open>Members\<close>

text \<open>
  \<^verbatim>\<open>add_armymember\<close>: \<open>t_reg\<close> and \<open>t_login\<close> are what the two calls of
  \<^verbatim>\<open>datetime.now()\<close> return, in that order. The dict is built first, the identifier
  of the clan is parsed next, and the push follows.
\<close>

definition new_member ::
  "platform \<Rightarrow> nat \<Rightarrow> datetime \<Rightarrow> datetime \<Rightarrow> ident \<Rightarrow> string \<Rightarrow> string \<Rightarrow> string \<Rightarrow> string \<Rightarrow> doc" where
  "new_member P n t_reg t_login clan_id nickname email password rank =
     [(''_id'', BOid n),
      (''nickname'', BStr nickname),
      (''email'', BStr email),
      (''password'', BStr password),
      (''rank'', BStr rank),
      (''memberOf'', BArr [BStr (str_ident P clan_id)]),
      (''status'', BStr []),
      (''registrationDate'', BDate t_reg),
      (''lastLogin'', BDate t_login),
      (''description'', BStr []),
      (''phone'', BStr []),
      (''imageAccess'', BBool False),
      (''infoAccess'', BBool False),
      (''manageAccess'', BBool False),
      (''mediaAccess'', BBool False)]"

definition add_armymember ::
  "platform \<Rightarrow> store \<Rightarrow> datetime \<Rightarrow> datetime \<Rightarrow> ident \<Rightarrow> string \<Rightarrow> string \<Rightarrow> string \<Rightarrow> string
     \<Rightarrow> (error + Member option) \<times> store" where
  "add_armymember P st t_reg t_login clan_id nickname email password rank =
     (let (n, st1) = new_ObjectId st;
          member = new_member P n t_reg t_login clan_id nickname email password rank in
      case ObjectId P clan_id of
        Inl e \<Rightarrow> (Inl e, st1)
      | Inr cid \<Rightarrow>
          (case update_one (clans st1) cid (op_push ''armyMembers'' (BDoc (stored_doc member))) of
             Inl e \<Rightarrow> (Inl e, st1)
           | Inr (coll, modified_count) \<Rightarrow>
               (if modified_count > 0
                then ebind (ArmyMember_from_doc member) (\<lambda>m. Inr (Some m))
                else Inr None,
                st1\<lparr>clans := coll\<rparr>)))"

definition remove_armymember ::
  "platform \<Rightarrow> store \<Rightarrow> ident \<Rightarrow> ident \<Rightarrow> (error + bool) \<times> store" where
  "remove_armymember P st clan_id member_id =
     (case ObjectId P clan_id of
        Inl e \<Rightarrow> (Inl e, st)
      | Inr cid \<Rightarrow>
          (case ObjectId P member_id of
             Inl e \<Rightarrow> (Inl e, st)
           | Inr mid \<Rightarrow>
               (case update_one (clans st) cid (op_pull ''armyMembers'' mid) of
                  Inl e \<Rightarrow> (Inl e, st)
                | Inr (coll, modified_count) \<Rightarrow>
                    (Inr (modified_count > 0), st\<lparr>clans := coll\<rparr>))))"

text \<open>
  \<^verbatim>\<open>get_armymember\<close>: \<^verbatim>\<open>find\<close> returns a cursor and sends nothing yet; a cursor has
  no attribute \<^verbatim>\<open>aggregate\<close>, so the call raises AttributeError once the clan's
  identifier is parsed.
\<close>

definition get_armymember :: "platform \<Rightarrow> store \<Rightarrow> ident \<Rightarrow> ident \<Rightarrow> error + doc option" where
  "get_armymember P st clan_id member_id =
     ebind (ObjectId P clan_id) (\<lambda>cid. Inl (AttributeError ''aggregate''))"

text \<open>
  The thirteen values \<^verbatim>\<open>update_armymember\<close> takes after the two identifiers, in the
  order of its parameters, and the \<^verbatim>\<open>$set\<close> it builds from them.
\<close>

record member_update =
  u_nickname :: string
  u_email :: string
  u_password :: string
  u_rank :: string
  u_status :: string
  u_registration_date :: datetime
  u_last_login :: datetime
  u_description :: string
  u_phone :: string
  u_image_access :: bool
  u_info_access :: bool
  u_manage_access :: bool
  u_media_access :: bool

definition member_sets :: "member_update \<Rightarrow> (string \<times> bson) list" where
  "member_sets u =
     [(''nickname'', BStr (u_nickname u)),
      (''email'', BStr (u_email u)),
      (''password'', BStr (u_password u)),
      (''rank'', BStr (u_rank u)),
      (''status'', BStr (u_status u)),
      (''registrationDate'', stored (BDate (u_registration_date u))),
      (''lastLogin'', stored (BDate (u_last_login u))),
      (''description'', BStr (u_description u)),
      (''phone'', BStr (u_phone u)),
      (''imageAccess'', BBool (u_image_access u)),
      (''infoAccess'', BBool (u_info_access u)),
      (''manageAccess'', BBool (u_manage_access u)),
      (''mediaAccess'', BBool (u_media_access u))]"

definition update_armymember ::
  "platform \<Rightarrow> store \<Rightarrow> ident \<Rightarrow> ident \<Rightarrow> member_update \<Rightarrow> (error + Member option) \<times> store" where
  "update_armymember P st clan_id member_id u =
     (case ObjectId P clan_id of
        Inl e \<Rightarrow> (Inl e, st)
      | Inr cid \<Rightarrow>
          (case ObjectId P member_id of
             Inl e \<Rightarrow> (Inl e, st)
           | Inr mid \<Rightarrow>
               (case update_one (clans st) cid (op_set_members mid (member_sets u)) of
                  Inl e \<Rightarrow> (Inl e, st)
                | Inr (coll, modified_count) \<Rightarrow>
                    (let st' = st\<lparr>clans := coll\<rparr> in
                     (if modified_count > 0
                      then ebind (get_armymember P st' clan_id member_id) (\<lambda>member.
                           ebind (ArmyMember_from_doc member) (\<lambda>m. Inr (Some m)))
                      else Inr None,
                      st')))))"

section \<open>Example states\<close>

text \<open>
  A platform for the examples: it knows the text of two ObjectIds and one date, and its
  string fields accept strings only.
\<close>

definition example_platform :: platform where
  "example_platform =
     \<lparr>oid_of_str =
        (\<lambda>s. if s = ''000000000000000000000001'' then Some 1
             else if s = ''000000000000000000000002'' then Some 2 else None),
      str_other =
        (\<lambda>v. if v = BOid 1 then ''000000000000000000000001''
             else if v = BOid 2 then ''000000000000000000000002'' else ''?''),
      coerce_str = (\<lambda>v. None),
      iso_parse = (\<lambda>s. if s = ''2024-01-01T00:00:00'' then Some 1704067200000000 else None),
      empty_set_ok = True\<rparr>"

text \<open>
  Three states of the store: one kingdom; the same with one clan, as \<^verbatim>\<open>create_clan\<close>
  writes it; the same with one member in the clan, as \<^verbatim>\<open>add_armymember\<close> writes it.
\<close>

definition one_kingdom :: store where
  "one_kingdom =
     \<lparr>kingdoms = [[(''_id'', BOid 0), (''name'', BStr ''Westeros'')]],
      clans = [],
      next_oid = 1\<rparr>"

definition one_clan :: store where
  "one_clan =
     \<lparr>kingdoms = [[(''_id'', BOid 0), (''name'', BStr ''Westeros'')]],
      clans = [[(''_id'', BOid 1), (''kingdomId'', BOid 0), (''clanName'', BStr ''Stark''),
                (''description'', BStr ''north''), (''armyMembers'', BArr [])]],
      next_oid = 2\<rparr>"

definition jon :: doc where
  "jon =
     [(''_id'', BOid 2),
      (''nickname'', BStr ''jon''),
      (''email'', BStr ''jon@wall''),
      (''password'', BStr ''ghost''),
      (''rank'', BStr ''lord''),
      (''memberOf'', BArr [BStr ''000000000000000000000001'']),
      (''status'', BStr []),
      (''registrationDate'', BDate 1704067200000000),
      (''lastLogin'', BDate 1704067200000000),
      (''description'', BStr []),
      (''phone'', BStr []),
      (''imageAccess'', BBool False),
      (''infoAccess'', BBool False),
      (''manageAccess'', BBool False),
      (''mediaAccess'', BBool False)]"

definition one_member :: store where
  "one_member =
     \<lparr>kingdoms = [[(''_id'', BOid 0), (''name'', BStr ''Westeros'')]],
      clans = [[(''_id'', BOid 1), (''kingdomId'', BOid 0), (''clanName'', BStr ''Stark''),
                (''description'', BStr ''north''), (''armyMembers'', BArr [BDoc jon])]],
      next_oid = 3\<rparr>"

definition snow :: member_update where
  "snow =
     \<lparr>u_nickname = ''snow'', u_email = ''snow@wall'', u_password = ''longclaw'',
      u_rank = ''king'', u_status = ''active'',
      u_registration_date = 1704067200000123, u_last_login = 1704067200000456,
      u_description = ''the white wolf'', u_phone = ''555'',
      u_image_access = True, u_info_access = True, u_manage_access = True,
      u_media_access = True\<rparr>"

text \<open>A member document as another writer could have stored it, dates as text.\<close>

definition arya :: doc where
  "arya =
     [(''_id'', BOid 2),
      (''nickname'', BStr ''arya''),
      (''memberOf'', BArr [BStr [], BStr ''000000000000000000000001'']),
      (''registrationDate'', BStr ''2024-01-01T00:00:00''),
      (''lastLogin'', BStr ''2024-01-01T00:00:00'')]"

section \<open>Basic facts\<close>

lemma ebind_Inl [simp]: "ebind (Inl e) f = Inl e"
  by (simp add: ebind_def)

lemma ebind_Inr [simp]: "ebind (Inr x) f = f x"
  by (simp add: ebind_def)

lemma ebind_eq_Inr: "ebind m f = Inr y \<Longrightarrow> \<exists>x. m = Inr x \<and> f x = Inr y"
  by (cases m) simp_all

lemma validate_str_list_length:
  "validate_str_list P xs = Inr ss \<Longrightarrow> length ss = length xs"
proof (induction xs arbitrary: ss)
  case Nil
  then show ?case by simp
next
  case (Cons x xs)
  from Cons.prems obtain s ss' where
    "validate_str_list P xs = Inr ss'" and "ss = s # ss'"
    by (auto dest!: ebind_eq_Inr)
  with Cons.IH show ?case by simp
qed

lemma validate_str_list_strings:
  "validate_str_list P (map BStr ss) = Inr ss"
  by (induction ss) (simp_all add: validate_str_def)

lemma filter_truthy_strings:
  "filter truthy (map BStr ss) = map BStr (filter (\<lambda>s. s \<noteq> []) ss)"
  by (induction ss) simp_all

subsection \<open>Documents and collections\<close>

lemma map_of_doc_set:
  "map_of (doc_set k v d) k' = (if k' = k then Some v else map_of d k')"
  by (induction d) auto

lemma doc_set_same: "map_of d k = Some v \<Longrightarrow> doc_set k v d = d"
  by (induction d) (auto split: if_splits)

lemma find_has_id: "find (has_id n) coll = Some d \<Longrightarrow> has_id n d"
  by (induction coll) (auto split: if_splits)

lemma find_replace_first:
  "find (has_id n) coll = Some d \<Longrightarrow> has_id n d' \<Longrightarrow>
   find (has_id n) (replace_first n d' coll) = Some d'"
  by (induction coll) (auto split: if_splits)

lemma replace_first_same:
  "find (has_id n) coll = Some d \<Longrightarrow> replace_first n d coll = coll"
  by (induction coll) (auto split: if_splits)

lemma delete_first_length:
  "find (has_id n) coll = Some d \<Longrightarrow> Suc (length (delete_first n coll)) = length coll"
  by (induction coll) (auto split: if_splits)

lemma filter_not_list_ex: "\<not> list_ex p ms \<Longrightarrow> filter (\<lambda>m. \<not> p m) ms = ms"
  by (induction ms) auto

lemma has_id_doc_set: "k \<noteq> ''_id'' \<Longrightarrow> has_id n (doc_set k v d) = has_id n d"
  by (simp add: has_id_def map_of_doc_set)

subsection \<open>What never returns\<close>

text \<open>
  The three lines that hydrate a clan raise on every document: when \<^verbatim>\<open>Clan.from_doc\<close>
  and the comprehension get through, the assignment to \<^verbatim>\<open>clan.armyMembers\<close> does not.
\<close>

lemma hydrated_clan_raises: "\<exists>e. hydrated_clan P d = Inl e"
  by (cases "Clan_from_doc P d"; cases "hydrate_members d")
    (simp_all add: hydrated_clan_def Clan_set_armyMembers_def)

lemma list_clans_loop_raises: "ds \<noteq> [] \<Longrightarrow> \<exists>e. list_clans_loop P ds acc = Inl e"
proof (cases ds)
  case Nil
  then show "ds \<noteq> [] \<Longrightarrow> ?thesis" by simp
next
  case (Cons d ds')
  obtain e where "hydrated_clan P d = Inl e"
    using hydrated_clan_raises by blast
  with Cons show ?thesis by simp
qed

lemma get_clan_returns_no_clan: "get_clan P st ident \<noteq> Inr (Some c)"
proof
  assume "get_clan P st ident = Inr (Some c)"
  then obtain oid d where "hydrated_clan P d = Inr c"
    by (auto simp add: get_clan_def dest!: ebind_eq_Inr split: option.splits if_splits)
  with hydrated_clan_raises [of P d] show False by auto
qed

lemma create_clan_raises: "\<exists>e. fst (create_clan P st kingdom_id clan_name description) = Inl e"
proof -
  have *: "\<exists>e. ebind (get_clan P s i) (\<lambda>r. case r of None \<Rightarrow> Inl TypeError
              | Some d \<Rightarrow> ebind (Clan_from_doc P d) (\<lambda>c. Inr (Some c))) = Inl e" for s i
  proof (cases "get_clan P s i")
    case (Inl e)
    then show ?thesis by simp
  next
    case (Inr r)
    with get_clan_returns_no_clan [of P s i] have "r = None"
      by (cases r) auto
    with Inr show ?thesis by simp
  qed
  show ?thesis
    using *
    by (simp add: create_clan_def new_ObjectId_def Let_def split: sum.splits)
qed

lemma list_kingdoms_loop_raises:
  "ds \<noteq> [] \<Longrightarrow> \<exists>e. list_kingdoms_loop P st ds acc = Inl e"
  by (cases ds; cases "getitem (hd ds) ''_id''"; cases "getitem (hd ds) ''name''")
    (simp_all add: KingdomSummary_from_doc_def)

lemma list_kingdoms_raises: "kingdoms st \<noteq> [] \<Longrightarrow> \<exists>e. list_kingdoms P st = Inl e"
  by (simp add: list_kingdoms_def list_kingdoms_loop_raises)

lemma get_kingdom_raises:
  assumes "ObjectId P ident = Inr oid"
    and "find_one (kingdoms st) oid = Some d"
    and "filter (refers_to ''kingdomId'' oid) (clans st) \<noteq> []"
  shows "\<exists>e. get_kingdom P st ident = Inl e"
proof -
  from assms(3) obtain e where "list_clans P st (IdOid oid) = Inl e"
    using list_clans_loop_raises [of "filter (refers_to ''kingdomId'' oid) (clans st)" P "[]"]
    by (auto simp add: list_clans_def ObjectId_def)
  moreover from assms(2) have "d \<noteq> []"
    by (auto simp add: find_one_def has_id_def dest: find_has_id)
  ultimately show ?thesis
    using assms(1,2) by (simp add: get_kingdom_def)
qed

lemma get_kingdom_absent:
  "ObjectId P ident = Inr oid \<Longrightarrow> find_one (kingdoms st) oid = None \<Longrightarrow>
   get_kingdom P st ident = Inr None"
  by (simp add: get_kingdom_def)

lemma add_armymember_returns_no_member:
  "fst (add_armymember P st t_reg t_login clan_id nickname email password rank) \<noteq> Inr (Some m)"
  by (simp add: add_armymember_def new_ObjectId_def Let_def ArmyMember_from_doc_def
      split: sum.splits prod.splits)

lemma update_armymember_returns_no_member:
  "fst (update_armymember P st clan_id member_id u) \<noteq> Inr (Some m)"
  by (simp add: update_armymember_def get_armymember_def Let_def
      split: sum.splits prod.splits)

subsection \<open>Deleting a kingdom\<close>

lemma delete_kingdom_clans: "clans (snd (delete_kingdom P st ident)) = clans st"
  by (simp add: delete_kingdom_def delete_one_def split: sum.splits option.splits)

lemma delete_kingdom_true:
  "fst (delete_kingdom P st ident) = Inr True \<longleftrightarrow>
     length (kingdoms st) = Suc (length (kingdoms (snd (delete_kingdom P st ident))))"
  by (auto simp add: delete_kingdom_def delete_one_def find_one_def
      dest: delete_first_length split: sum.splits option.splits)

subsection \<open>Updating a clan\<close>

lemma has_id_update_fields:
  "has_id n (set_fields (update_fields name description) d) = has_id n d"
  by (cases name; cases description) (simp_all add: update_fields_def has_id_doc_set)

lemma map_of_update_fields_clanName:
  "map_of (set_fields (update_fields name description) d) ''clanName'' =
     (case name of
        None \<Rightarrow> map_of d ''clanName''
      | Some n \<Rightarrow> if n = [] then map_of d ''clanName'' else Some (BStr n))"
  by (cases name; cases description) (simp_all add: update_fields_def map_of_doc_set)

lemma map_of_update_fields_description:
  "map_of (set_fields (update_fields name description) d) ''description'' =
     (case description of None \<Rightarrow> map_of d ''description'' | Some s \<Rightarrow> Some (BStr s))"
  by (cases name; cases description) (simp_all add: update_fields_def map_of_doc_set)

lemma update_clan_stored:
  assumes "ObjectId P clan_id = Inr cid" and "find_one (clans st) cid = Some d"
  shows "find_one (clans (snd (update_clan P st clan_id name description))) cid =
           Some (set_fields (update_fields name description) d)"
proof (cases "update_fields name description = [] \<and> \<not> empty_set_ok P")
  case True
  with assms show ?thesis
    by (simp add: update_clan_def find_one_and_update_def)
next
  case False
  from assms(2) have "has_id cid (set_fields (update_fields name description) d)"
    by (simp add: has_id_update_fields find_one_def find_has_id)
  with assms False show ?thesis
    by (auto simp add: update_clan_def find_one_and_update_def find_one_def find_replace_first)
qed

subsection \<open>Reading a member\<close>

text \<open>
  Where \<^verbatim>\<open>Member.from_doc\<close> returns, \<open>member_of\<close> is the stored list without its
  falsy entries; it returns only for dates stored as text, and does return for every
  document of strings with dates the platform parses.
\<close>

lemma Member_from_doc_member_of:
  assumes "Member_from_doc P d = Inr m"
    and "doc_get d ''memberOf'' (BArr []) = BArr xs"
  shows "validate_str_list P (filter truthy xs) = Inr (m_member_of m)
       \<and> length (m_member_of m) = length (filter truthy xs)
       \<and> length (m_member_of m) \<le> length xs
       \<and> (\<forall>ss. xs = map BStr ss \<longrightarrow> m_member_of m = filter (\<lambda>s. s \<noteq> []) ss)"
proof -
  from assms have v: "validate_str_list P (filter truthy xs) = Inr (m_member_of m)"
    unfolding Member_from_doc_def
    by (auto dest!: ebind_eq_Inr)
  then have len: "length (m_member_of m) = length (filter truthy xs)"
    by (rule validate_str_list_length)
  have "length (filter truthy xs) \<le> length xs"
    by simp
  moreover have "m_member_of m = filter (\<lambda>s. s \<noteq> []) ss" if "xs = map BStr ss" for ss
    using v that by (simp add: filter_truthy_strings validate_str_list_strings)
  ultimately show ?thesis
    using v len by simp
qed

lemma fromisoformat_Inr:
  "fromisoformat P v = Inr t \<Longrightarrow> \<exists>s. v = BStr s \<and> s \<noteq> [] \<and> iso_parse P s = Some t"
  by (cases v) (auto simp add: fromisoformat_def split: if_splits option.splits)

lemma Member_from_doc_needs_iso_text:
  assumes "Member_from_doc P d = Inr m"
  shows "(\<exists>s. doc_get d ''registrationDate'' (BStr []) = BStr s \<and> s \<noteq> [])
       \<and> (\<exists>s. doc_get d ''lastLogin'' (BStr []) = BStr s \<and> s \<noteq> [])"
proof -
  from assms obtain reg login where
    "fromisoformat P (doc_get d ''registrationDate'' (BStr [])) = Inr reg"
    "fromisoformat P (doc_get d ''lastLogin'' (BStr [])) = Inr login"
    unfolding Member_from_doc_def
    by (auto dest!: ebind_eq_Inr)
  then show ?thesis
    by (auto dest!: fromisoformat_Inr)
qed

lemma Member_from_doc_date_raises:
  "map_of d ''registrationDate'' = Some (BDate t) \<Longrightarrow> Member_from_doc P d \<noteq> Inr m"
  using Member_from_doc_needs_iso_text [of P d m]
  by (auto simp add: doc_get_def)

lemma Member_from_doc_after_update:
  "Member_from_doc P (set_fields (member_sets u) d) \<noteq> Inr m"
  by (rule Member_from_doc_date_raises [where t = "u_registration_date u - u_registration_date u mod 1000"])
    (simp add: member_sets_def map_of_doc_set)

lemma Member_from_doc_iso_text:
  assumes "map_of d ''_id'' = Some i"
    and "map_of d ''nickname'' = Some (BStr v_nickname)"
    and "doc_get d ''email'' (BStr []) = BStr v_email"
    and "doc_get d ''password'' (BStr []) = BStr v_password"
    and "doc_get d ''rank'' (BStr []) = BStr v_rank"
    and "doc_get d ''memberOf'' (BArr []) = BArr (map BStr ss)"
    and "doc_get d ''status'' (BStr []) = BStr v_status"
    and "doc_get d ''registrationDate'' (BStr []) = BStr reg"
    and "reg \<noteq> []" and "iso_parse P reg = Some t_reg"
    and "doc_get d ''lastLogin'' (BStr []) = BStr login"
    and "login \<noteq> []" and "iso_parse P login = Some t_login"
    and "doc_get d ''description'' (BStr []) = BStr v_description"
    and "doc_get d ''phone'' (BStr []) = BStr v_phone"
  shows "\<exists>m. Member_from_doc P d = Inr m
            \<and> m_member_of m = filter (\<lambda>s. s \<noteq> []) ss
            \<and> m_nickname m = v_nickname
            \<and> m_registration_date m = t_reg \<and> m_last_login m = t_login"
  using assms
  by (simp add: Member_from_doc_def getitem_def fromisoformat_def validate_str_def
      filter_truthy_strings validate_str_list_strings)

lemma Member_from_doc_arya:
  "\<exists>m. Member_from_doc example_platform arya = Inr m
       \<and> m_member_of m = [''000000000000000000000001'']"
  by (simp add: Member_from_doc_def arya_def getitem_def doc_get_def fromisoformat_def
        example_platform_def validate_str_def py_str_def)

section \<open>The claims\<close>

text \<open>
  C1. \<^verbatim>\<open>list_kingdoms\<close> is to return one summary per kingdom, a freshly created
  kingdom with \<^verbatim>\<open>clan_count == 0\<close>. On the code it does not: \<^verbatim>\<open>create_kingdom\<close> on
  the empty store leaves one kingdom, and \<^verbatim>\<open>list_kingdoms\<close> on that store raises
  NameError for the unbound name \<^verbatim>\<open>clanCount\<close> instead of listing it.
\<close>

theorem list_kingdoms_fresh_kingdom_raises:
  "create_kingdom P \<lparr>kingdoms = [], clans = [], next_oid = 0\<rparr> ''Westeros'' =
     (Inr (py_str P (BOid 0)), one_kingdom)
   \<and> list_kingdoms P one_kingdom = Inl (NameError ''clanCount'')"
  by (simp add: create_kingdom_def new_ObjectId_def insert_one_def find_one_def one_kingdom_def
      list_kingdoms_def project_name_def KingdomSummary_from_doc_def getitem_def)

text \<open>
  C2. \<^verbatim>\<open>update_armymember\<close> is to set the thirteen fields of the matching element and
  return the member re-read. On the code the fields are set in the store, and the call
  then raises: re-reading through \<^verbatim>\<open>get_armymember\<close> fails with AttributeError. Here
  the clan holds the member \<open>jon\<close> and \<open>member_id\<close> is any text of his identifier.
\<close>

theorem update_armymember_sets_then_raises:
  assumes "oid_of_str P member_id = Some 2"
  shows "update_armymember P one_member (IdOid 1) (IdStr member_id) snow =
           (Inl (AttributeError ''aggregate''),
            one_member\<lparr>clans :=
              [[(''_id'', BOid 1), (''kingdomId'', BOid 0), (''clanName'', BStr ''Stark''),
                (''description'', BStr ''north''),
                (''armyMembers'', BArr [BDoc (set_fields (member_sets snow) jon)])]]\<rparr>)"
  using assms
  by (simp add: update_armymember_def ObjectId_def update_one_def find_one_def one_member_def
      has_id_def op_set_members_def member_selected_def refers_to_def jon_def member_sets_def
      snow_def get_armymember_def Let_def)

theorem update_armymember_sets_then_raises_witness:
  "oid_of_str example_platform ''000000000000000000000002'' = Some 2
   \<and> fst (update_armymember example_platform one_member (IdOid 1)
            (IdStr ''000000000000000000000002'') snow) = Inl (AttributeError ''aggregate'')
   \<and> map_of (set_fields (member_sets snow) jon) ''nickname'' = Some (BStr ''snow'')"
proof -
  have h: "oid_of_str example_platform ''000000000000000000000002'' = Some 2"
    by (simp add: example_platform_def)
  show ?thesis
    using h update_armymember_sets_then_raises [OF h]
    by (simp add: member_sets_def snow_def jon_def)
qed

text \<open>
  C3. For an existing clan, \<^verbatim>\<open>update_clan\<close> with the empty string as name leaves the
  stored name as it is, and with the empty string as description stores the empty
  description: the name is written only when truthy, the description whenever it is not
  None. The statement is about the stored document, whatever the call returns or raises
  after the write.
\<close>

theorem update_clan_name_and_description:
  assumes "ObjectId P clan_id = Inr cid" and "find_one (clans st) cid = Some d"
  shows "\<exists>d'. find_one (clans (snd (update_clan P st clan_id name description))) cid = Some d'
           \<and> (name = Some [] \<longrightarrow> map_of d' ''clanName'' = map_of d ''clanName'')
           \<and> (description = Some [] \<longrightarrow> map_of d' ''description'' = Some (BStr []))
           \<and> (name = None \<longrightarrow> map_of d' ''clanName'' = map_of d ''clanName'')
           \<and> (\<forall>n. name = Some n \<and> n \<noteq> [] \<longrightarrow> map_of d' ''clanName'' = Some (BStr n))
           \<and> (description = None \<longrightarrow> map_of d' ''description'' = map_of d ''description'')
           \<and> (\<forall>s. description = Some s \<longrightarrow> map_of d' ''description'' = Some (BStr s))"
  using update_clan_stored [OF assms, of name description]
  by (auto simp add: map_of_update_fields_clanName map_of_update_fields_description)

theorem update_clan_name_and_description_witness:
  "ObjectId example_platform (IdOid 1) = Inr 1
   \<and> find_one (clans one_clan) 1 =
       Some [(''_id'', BOid 1), (''kingdomId'', BOid 0), (''clanName'', BStr ''Stark''),
             (''description'', BStr ''north''), (''armyMembers'', BArr [])]
   \<and> (\<exists>d'. find_one (clans (snd (update_clan example_platform one_clan (IdOid 1)
                                   (Some []) (Some [])))) 1 = Some d'
          \<and> map_of d' ''clanName'' = Some (BStr ''Stark'')
          \<and> map_of d' ''description'' = Some (BStr []))"
proof -
  have h1: "ObjectId example_platform (IdOid 1) = Inr 1"
    by (simp add: ObjectId_def)
  have h2: "find_one (clans one_clan) 1 =
       Some [(''_id'', BOid 1), (''kingdomId'', BOid 0), (''clanName'', BStr ''Stark''),
             (''description'', BStr ''north''), (''armyMembers'', BArr [])]"
    by (simp add: one_clan_def find_one_def has_id_def)
  from update_clan_name_and_description [OF h1 h2, of "Some []" "Some []"]
  obtain d' where
    "find_one (clans (snd (update_clan example_platform one_clan (IdOid 1)
                              (Some []) (Some [])))) 1 = Some d'"
    "map_of d' ''clanName'' = Some (BStr ''Stark'')"
    "map_of d' ''description'' = Some (BStr [])"
    by auto
  with h1 h2 show ?thesis by blast
qed

text \<open>
  C4. \<^verbatim>\<open>add_armymember\<close> is to append the new member and return it when the append
  modified the clan. On the code the member is appended (fresh identifier,
  \<^verbatim>\<open>memberOf\<close> the text of the clan's identifier, the two clock readings, empty
  defaults), and the call then raises NameError for the unbound name \<^verbatim>\<open>ArmyMember\<close>
  instead of returning it.
\<close>

theorem add_armymember_appends_then_raises:
  "add_armymember P one_clan t_reg t_login (IdOid 1) ''jon'' ''jon@wall'' ''ghost'' ''lord'' =
     (Inl (NameError ''ArmyMember''),
      one_clan\<lparr>clans :=
        [[(''_id'', BOid 1), (''kingdomId'', BOid 0), (''clanName'', BStr ''Stark''),
          (''description'', BStr ''north''),
          (''armyMembers'',
             BArr [BDoc (stored_doc (new_member P 2 t_reg t_login (IdOid 1)
                                       ''jon'' ''jon@wall'' ''ghost'' ''lord''))])]],
        next_oid := 3\<rparr>)"
  by (simp add: add_armymember_def new_ObjectId_def one_clan_def ObjectId_def update_one_def
      find_one_def has_id_def op_push_def ArmyMember_from_doc_def Let_def)

text \<open>
  C5. For a clan whose member array (absent counts as empty) holds no element with the
  given identifier, \<^verbatim>\<open>remove_armymember\<close> returns false and leaves the store, and so
  the array, unchanged.
\<close>

theorem remove_armymember_absent:
  assumes "ObjectId P clan_id = Inr cid"
    and "ObjectId P member_id = Inr mid"
    and "find_one (clans st) cid = Some d"
    and "doc_get d ''armyMembers'' (BArr []) = BArr ms"
    and "\<not> list_ex (member_has_id mid) ms"
  shows "remove_armymember P st clan_id member_id = (Inr False, st)"
proof -
  have pull: "op_pull ''armyMembers'' mid d = Inr d"
  proof (cases "map_of d ''armyMembers''")
    case None
    then show ?thesis by (simp add: op_pull_def)
  next
    case (Some v)
    with assms(4) have "v = BArr ms" by (simp add: doc_get_def)
    with Some assms(5) show ?thesis
      by (simp add: op_pull_def filter_not_list_ex doc_set_same)
  qed
  from assms(3) have "replace_first cid d (clans st) = clans st"
    by (simp add: find_one_def replace_first_same)
  with assms(1-3) pull show ?thesis
    by (simp add: remove_armymember_def update_one_def)
qed

theorem remove_armymember_absent_witness:
  "ObjectId example_platform (IdOid 1) = Inr 1
   \<and> ObjectId example_platform (IdStr ''000000000000000000000001'') = Inr 1
   \<and> find_one (clans one_member) 1 =
       Some [(''_id'', BOid 1), (''kingdomId'', BOid 0), (''clanName'', BStr ''Stark''),
             (''description'', BStr ''north''), (''armyMembers'', BArr [BDoc jon])]
   \<and> \<not> list_ex (member_has_id 1) [BDoc jon]
   \<and> remove_armymember example_platform one_member (IdOid 1)
        (IdStr ''000000000000000000000001'') = (Inr False, one_member)"
proof -
  let ?d = "[(''_id'', BOid 1), (''kingdomId'', BOid 0), (''clanName'', BStr ''Stark''),
             (''description'', BStr ''north''), (''armyMembers'', BArr [BDoc jon])]"
  have h1: "ObjectId example_platform (IdOid 1) = Inr 1"
    by (simp add: ObjectId_def)
  have h2: "ObjectId example_platform (IdStr ''000000000000000000000001'') = Inr 1"
    by (simp add: ObjectId_def example_platform_def)
  have h3: "find_one (clans one_member) 1 = Some ?d"
    by (simp add: one_member_def find_one_def has_id_def)
  have h4: "doc_get ?d ''armyMembers'' (BArr []) = BArr [BDoc jon]"
    by (simp add: doc_get_def)
  have h5: "\<not> list_ex (member_has_id 1) [BDoc jon]"
    by (simp add: member_has_id_def refers_to_def jon_def)
  from remove_armymember_absent [OF h1 h2 h3 h4 h5] h1 h2 h3 h5 show ?thesis
    by simp
qed

text \<open>
  C6. \<^verbatim>\<open>delete_kingdom\<close> is to return true when it removed the kingdom and to leave
  its clans fetchable by identifier. On the code the kingdom is removed, true is
  returned and the clans collection is untouched, but the orphaned clan cannot be
  fetched: \<^verbatim>\<open>get_clan\<close> raises on it, ValueError for a clan without members and
  NameError for a clan with one.
\<close>

theorem delete_kingdom_orphan_not_fetched:
  "delete_kingdom P one_clan (IdOid 0) = (Inr True, one_clan\<lparr>kingdoms := []\<rparr>)
   \<and> get_clan P (one_clan\<lparr>kingdoms := []\<rparr>) (IdOid 1) = Inl ValueError
   \<and> delete_kingdom P one_member (IdOid 0) = (Inr True, one_member\<lparr>kingdoms := []\<rparr>)
   \<and> get_clan P (one_member\<lparr>kingdoms := []\<rparr>) (IdOid 1) = Inl (NameError ''ArmyMember'')"
  by (simp add: delete_kingdom_def delete_one_def find_one_def has_id_def ObjectId_def
      one_clan_def one_member_def get_clan_def hydrated_clan_def Clan_from_doc_def getitem_def
      validate_str_def doc_get_def hydrate_members_def ArmyMember_from_doc_def
      Clan_set_armyMembers_def)

text \<open>
  C7. \<^verbatim>\<open>create_clan\<close> is to insert the clan document and return the clan re-read.
  On the code the document is inserted (new identifier, the kingdom's identifier, name,
  description, empty member array), and the call then raises: re-reading through
  \<^verbatim>\<open>get_clan\<close> fails with ValueError on the platforms that read back the text of an
  ObjectId.
\<close>

theorem create_clan_inserts_then_raises:
  assumes "oid_of_str P (py_str P (BOid 1)) = Some 1"
  shows "create_clan P one_kingdom (IdOid 0) ''Stark'' ''north'' = (Inl ValueError, one_clan)"
  using assms
  by (simp add: create_clan_def new_ObjectId_def one_kingdom_def one_clan_def ObjectId_def
      insert_one_def find_one_def has_id_def get_clan_def hydrated_clan_def Clan_from_doc_def
      getitem_def validate_str_def doc_get_def hydrate_members_def Clan_set_armyMembers_def
      Let_def)

theorem create_clan_inserts_then_raises_witness:
  "oid_of_str example_platform (py_str example_platform (BOid 1)) = Some 1
   \<and> create_clan example_platform one_kingdom (IdOid 0) ''Stark'' ''north'' =
       (Inl ValueError, one_clan)"
proof -
  have h: "oid_of_str example_platform (py_str example_platform (BOid 1)) = Some 1"
    by (simp add: example_platform_def py_str_def)
  from create_clan_inserts_then_raises [OF h] h show ?thesis
    by simp
qed

text \<open>
  C8. \<^verbatim>\<open>get_kingdom\<close> is to return the kingdom with its clans embedded, each with its
  members. On the code a kingdom that has a clan cannot be fetched: the call raises
  ValueError when the clan has no member and NameError when it has one.
\<close>

theorem get_kingdom_with_clan_raises:
  "get_kingdom P one_clan (IdOid 0) = Inl ValueError
   \<and> get_kingdom P one_member (IdOid 0) = Inl (NameError ''ArmyMember'')"
  by (simp add: get_kingdom_def ObjectId_def find_one_def has_id_def one_clan_def
      one_member_def list_clans_def refers_to_def hydrated_clan_def Clan_from_doc_def
      getitem_def validate_str_def doc_get_def hydrate_members_def ArmyMember_from_doc_def
      Clan_set_armyMembers_def)

text \<open>
  C9. \<^verbatim>\<open>Member.from_doc\<close> is to produce, for every stored member document, a member
  whose \<open>member_of\<close> is the stored list without its falsy entries. On the code it
  produces no member from the documents the layer stores: \<^verbatim>\<open>add_armymember\<close> and
  \<^verbatim>\<open>update_armymember\<close> store the two dates as datetimes, and
  \<^verbatim>\<open>datetime.fromisoformat\<close> raises TypeError on anything but a string. That holds
  for every document \<^verbatim>\<open>add_armymember\<close> writes, for the member \<open>jon\<close>, and for
  \<open>jon\<close> with an empty string put first in his \<^verbatim>\<open>memberOf\<close>.
\<close>

theorem Member_from_doc_stored_member_raises:
  "Member_from_doc P
     (stored_doc (new_member P n t_reg t_login clan_id nickname email password rank)) =
     Inl TypeError
   \<and> Member_from_doc P jon = Inl TypeError
   \<and> Member_from_doc P
       (doc_set ''memberOf'' (BArr [BStr [], BStr ''000000000000000000000001'']) jon) =
       Inl TypeError"
  by (simp add: Member_from_doc_def new_member_def stored_doc_def jon_def getitem_def
      doc_get_def fromisoformat_def)

text \<open>
  C10. For a clan identifier that matches no clan document, \<^verbatim>\<open>add_armymember\<close>
  returns nothing and leaves both collections as they were: the push does not upsert.
\<close>

theorem add_armymember_no_clan:
  assumes "ObjectId P clan_id = Inr cid"
    and "find_one (clans st) cid = None"
  shows "fst (add_armymember P st t_reg t_login clan_id nickname email password rank) = Inr None
       \<and> clans (snd (add_armymember P st t_reg t_login clan_id nickname email password rank))
           = clans st
       \<and> kingdoms (snd (add_armymember P st t_reg t_login clan_id nickname email password rank))
           = kingdoms st"
  using assms
  by (simp add: add_armymember_def new_ObjectId_def update_one_def Let_def)

theorem add_armymember_no_clan_witness:
  "ObjectId example_platform (IdOid 7) = Inr 7
   \<and> find_one (clans one_clan) 7 = None
   \<and> add_armymember example_platform one_clan 1704067200000000 1704067200000001 (IdOid 7)
        ''jon'' ''jon@wall'' ''ghost'' ''lord'' = (Inr None, one_clan\<lparr>next_oid := 3\<rparr>)"
proof -
  have h1: "ObjectId example_platform (IdOid 7) = Inr 7"
    by (simp add: ObjectId_def)
  have h2: "find_one (clans one_clan) 7 = None"
    by (simp add: one_clan_def find_one_def has_id_def)
  have "snd (add_armymember example_platform one_clan 1704067200000000 1704067200000001
               (IdOid 7) ''jon'' ''jon@wall'' ''ghost'' ''lord'') = one_clan\<lparr>next_oid := 3\<rparr>"
    by (simp add: add_armymember_def new_ObjectId_def update_one_def Let_def ObjectId_def
        find_one_def has_id_def one_clan_def)
  with add_armymember_no_clan [OF h1 h2, of 1704067200000000 1704067200000001
         "''jon''" "''jon@wall''" "''ghost''" "''lord''"] h1 h2
  show ?thesis
    by (simp add: prod_eq_iff)
qed

end
